theory Spec2Isabelle
  imports Complex_Main "HOL-Library.AList"
begin

section \<open>Python values used by the two modules\<close>

text \<open>
  The repository holds two Python modules: \<^verbatim>\<open>evaluate.py\<close> (readers, metrics, the
  registry tables and the aggregation function \<^verbatim>\<open>evaluate\<close>) and
  \<^verbatim>\<open>preprocess.py\<close> (the PAWS-X normalisation). Both are embedded here function
  by function.

  Conventions of the embedding.
  \<^item> A Python \<^verbatim>\<open>str\<close> is a \<^typ>\<open>string\<close>; the text of a file is the string that
    text-mode reading delivers (newlines already translated to \<^verbatim>\<open>\n\<close>).
  \<^item> A raised exception is the \<open>Inl\<close> branch of a sum; the first one raised wins,
    since neither module contains a \<^verbatim>\<open>try\<close>.
  \<^item> A Python \<^verbatim>\<open>float\<close> is a \<^typ>\<open>real\<close>: sums and quotients are exact, rounding
    of the machine arithmetic is not part of the model.
  \<^item> A \<^verbatim>\<open>dict\<close> is an association list in insertion order with
    \<^const>\<open>AList.update\<close> as item assignment and \<^const>\<open>map_of\<close> as lookup.
\<close>

datatype error =
    KeyError string
  | FileNotFoundError string
  | AssertionError string
  | TypeError string
  | IndexError
  | ZeroDivisionError
  | StopIteration
  | IsADirectoryError string
  | LibraryError string

text \<open>
  The file system as the two modules see it: the text of every readable file, and for
  every directory the names of its first-level subdirectories (what
  \<^verbatim>\<open>next(os.walk(d))[1]\<close> returns).
\<close>

record fs =
  files :: "string \<Rightarrow> string option"
  subdirs :: "string \<Rightarrow> string list option"

definition open_read :: "fs \<Rightarrow> string \<Rightarrow> error + string" where
  "open_read d path =
     (case files d path of None \<Rightarrow> Inl (FileNotFoundError path) | Some text \<Rightarrow> Inr text)"

subsection \<open>String methods\<close>

text \<open>
  \<^verbatim>\<open>str.strip()\<close> removes leading and trailing whitespace; the whitespace characters
  below U+0100 are tab, line feed, vertical tab, form feed, carriage return, the four
  separators 0x1C..0x1F, the space, next line (0x85) and no-break space (0xA0).
\<close>

definition isspace :: "char \<Rightarrow> bool" where
  "isspace c =
     (c \<in> set [CHR 0x09, CHR 0x0A, CHR 0x0B, CHR 0x0C, CHR 0x0D,
                CHR 0x1C, CHR 0x1D, CHR 0x1E, CHR 0x1F, CHR 0x20, CHR 0x85, CHR 0xA0])"

definition strip :: "string \<Rightarrow> string" where
  "strip s = rev (dropWhile isspace (rev (dropWhile isspace s)))"

text \<open>\<^verbatim>\<open>s.split(sep)\<close> for a one-character separator: never empty, empty pieces kept.\<close>

fun split_on :: "char \<Rightarrow> string \<Rightarrow> string list" where
  "split_on sep [] = [[]]"
| "split_on sep (c # cs) =
     (if c = sep then [] # split_on sep cs
      else (case split_on sep cs of
              [] \<Rightarrow> [[c]]
            | p # ps \<Rightarrow> (c # p) # ps))"

text \<open>\<^verbatim>\<open>sep.join(xs)\<close>.\<close>

fun join :: "string \<Rightarrow> string list \<Rightarrow> string" where
  "join sep [] = []"
| "join sep [x] = x"
| "join sep (x # y # ys) = x @ sep @ join sep (y # ys)"

text \<open>
  Iterating over an open text file yields its lines, each with its terminating
  \<^verbatim>\<open>\n\<close> except possibly the last; the empty file yields no line.
\<close>

fun file_lines :: "string \<Rightarrow> string list" where
  "file_lines [] = []"
| "file_lines (c # cs) =
     (if c = CHR 0x0A then [c] # file_lines cs
      else (case file_lines cs of
              [] \<Rightarrow> [[c]]
            | l # ls \<Rightarrow> (c # l) # ls))"

text \<open>\<^verbatim>\<open>os.path.join\<close> on POSIX: an absolute component restarts the path.\<close>

definition join2 :: "string \<Rightarrow> string \<Rightarrow> string" where
  "join2 path b =
     (if b \<noteq> [] \<and> hd b = CHR ''/'' then b
      else if path = [] \<or> last path = CHR ''/'' then path @ b
      else path @ ''/'' @ b)"

definition os_path_join :: "string \<Rightarrow> string list \<Rightarrow> string" where
  "os_path_join a ps = foldl join2 a ps"

text \<open>
  \<^verbatim>\<open>os.path.dirname\<close> on POSIX: the part up to the last slash, without its trailing
  slashes unless it consists of slashes only.
\<close>

definition dirname :: "string \<Rightarrow> string" where
  "dirname p =
     (let head = rev (dropWhile (\<lambda>c. c \<noteq> CHR ''/'') (rev p))
      in if head \<noteq> [] \<and> \<not> list_all (\<lambda>c. c = CHR ''/'') head
         then rev (dropWhile (\<lambda>c. c = CHR ''/'') (rev head))
         else head)"

text \<open>
  \<^verbatim>\<open>open(path, 'w')\<close> followed by writing the whole text: the empty path and a path
  whose directory does not exist raise \<^verbatim>\<open>FileNotFoundError\<close>, a directory raises
  \<^verbatim>\<open>IsADirectoryError\<close>; otherwise the text replaces the content of the file.
\<close>

definition open_write :: "fs \<Rightarrow> string \<Rightarrow> string \<Rightarrow> error + fs" where
  "open_write d path content =
     (if path = [] then Inl (FileNotFoundError path)
      else if dirname path \<noteq> [] \<and> subdirs d (dirname path) = None
        then Inl (FileNotFoundError path)
      else (case subdirs d path of
              Some names \<Rightarrow> Inl (IsADirectoryError path)
            | None \<Rightarrow> Inr (d\<lparr>files := (files d)(path \<mapsto> content)\<rparr>)))"

section \<open>evaluate.py: readers\<close>

text \<open>
  A reader returns a list of examples: \<^verbatim>\<open>read_label\<close> one stripped line per example,
  \<^verbatim>\<open>read_tag\<close> one list of stripped lines per example.
\<close>

datatype example = Label string | Tags "string list"

type_synonym reader = "fs \<Rightarrow> string \<Rightarrow> error + example list"

text \<open>
  The loop of \<^verbatim>\<open>read_tag\<close>, with its two variables \<^verbatim>\<open>labels\<close> and \<^verbatim>\<open>example\<close>:
  a non-blank line is appended to the running example, a blank line closes it. After the
  last line the function returns \<^verbatim>\<open>labels\<close>.
\<close>

fun read_tag_loop :: "string list \<Rightarrow> string list list \<Rightarrow> string list \<Rightarrow> string list list" where
  "read_tag_loop [] labels example = labels"
| "read_tag_loop (line # rest) labels example =
     (if strip line \<noteq> []
      then read_tag_loop rest labels (example @ [strip line])
      else read_tag_loop rest (labels @ [example]) [])"

definition read_tag :: reader where
  "read_tag d file =
     (case open_read d file of
        Inl e \<Rightarrow> Inl e
      | Inr text \<Rightarrow> Inr (map Tags (read_tag_loop (file_lines text) [] [])))"

definition read_label :: reader where
  "read_label d file =
     (case open_read d file of
        Inl e \<Rightarrow> Inl e
      | Inr text \<Rightarrow> Inr (map (\<lambda>line. Label (strip line)) (file_lines text)))"

section \<open>evaluate.py: metrics\<close>

type_synonym scores = "(string \<times> real) list"

type_synonym metric = "example list \<Rightarrow> example list \<Rightarrow> string option \<Rightarrow> error + scores"

text \<open>
  \<^verbatim>\<open>f1\<close> calls three functions of the external package seqeval. They are not part of
  the repository, so they are parameters of the model; each may raise.
\<close>

record seqeval =
  f1_score :: "example list \<Rightarrow> example list \<Rightarrow> error + real"
  precision_score :: "example list \<Rightarrow> example list \<Rightarrow> error + real"
  recall_score :: "example list \<Rightarrow> example list \<Rightarrow> error + real"

definition f1 :: "seqeval \<Rightarrow> metric" where
  "f1 sq labels predictions language =
     (case f1_score sq labels predictions of
        Inl e \<Rightarrow> Inl e
      | Inr f \<Rightarrow>
     (case precision_score sq labels predictions of
        Inl e \<Rightarrow> Inl e
      | Inr precision \<Rightarrow>
     (case recall_score sq labels predictions of
        Inl e \<Rightarrow> Inl e
      | Inr recall \<Rightarrow>
          Inr [(''f1'', f * 100), (''precision'', precision * 100),
               (''recall'', recall * 100)])))"

text \<open>
  \<^verbatim>\<open>accuracy\<close>: \<^verbatim>\<open>zip\<close> stops at the shorter list, the divisor is
  \<^verbatim>\<open>len(predictions)\<close>, and an empty prediction list divides by zero.
\<close>

definition correct :: "example list \<Rightarrow> example list \<Rightarrow> nat" where
  "correct labels predictions =
     sum_list (map (\<lambda>(p, l). if p = l then 1 else 0) (zip predictions labels))"

definition accuracy :: metric where
  "accuracy labels predictions language =
     (if length predictions = 0 then Inl ZeroDivisionError
      else Inr [(''accuracy'',
                 real (correct labels predictions) / real (length predictions) * 100)])"

section \<open>evaluate.py: the registry tables\<close>

text \<open>
  The four module-level dictionaries. \<^verbatim>\<open>evaluate\<close> and \<^verbatim>\<open>evaluate_one_task\<close>
  read them as globals; in the model they are one record that both functions take as their
  first argument, and \<open>tables\<close> below is the record the module defines.
\<close>

record registry =
  GROUP2TASK :: "(string \<times> string list) list"
  TASK2LANGS :: "(string \<times> string list) list"
  READER_FUNCTION :: "(string \<times> reader) list"
  METRIC_FUNCTION :: "(string \<times> metric) list"

definition tables :: "seqeval \<Rightarrow> registry" where
  "tables sq =
     \<lparr> GROUP2TASK = [(''classification'', [''pawsx'', ''xnli''])],
       TASK2LANGS = [(''pawsx'', split_on CHR '','' ''de,en,es,fr,ja,ko,zh'')],
       READER_FUNCTION = [(''pawsx'', read_label)],
       METRIC_FUNCTION = [(''pawsx'', f1 sq)] \<rparr>"

text \<open>\<^verbatim>\<open>d[k]\<close> on a plain dictionary raises \<^verbatim>\<open>KeyError\<close> for a missing key.\<close>

definition getitem :: "(string \<times> 'v) list \<Rightarrow> string \<Rightarrow> error + 'v" where
  "getitem d k = (case map_of d k of None \<Rightarrow> Inl (KeyError k) | Some v \<Rightarrow> Inr v)"

section \<open>evaluate.py: evaluate_one_task\<close>

definition mismatch_message :: "string \<Rightarrow> string \<Rightarrow> string \<Rightarrow> string" where
  "mismatch_message prediction_file label_file task =
     ''Number of examples in '' @ prediction_file @ '' and '' @ label_file
       @ '' not matched in '' @ task @ '' task''"

definition evaluate_one_task ::
  "registry \<Rightarrow> fs \<Rightarrow> string \<Rightarrow> string \<Rightarrow> string \<Rightarrow> string option \<Rightarrow> error + scores" where
  "evaluate_one_task reg d prediction_file label_file task language =
     (case getitem (READER_FUNCTION reg) task of
        Inl e \<Rightarrow> Inl e
      | Inr rd \<Rightarrow>
     (case rd d prediction_file of
        Inl e \<Rightarrow> Inl e
      | Inr predictions \<Rightarrow>
     (case rd d label_file of
        Inl e \<Rightarrow> Inl e
      | Inr labels \<Rightarrow>
          if task \<notin> set [''bucc2018'', ''mlqa'', ''tydiqa'', ''xquad'']
             \<and> length predictions \<noteq> length labels
          then Inl (AssertionError (mismatch_message prediction_file label_file task))
          else (case getitem (METRIC_FUNCTION reg) task of
                  Inl e \<Rightarrow> Inl e
                | Inr m \<Rightarrow> m labels predictions language))))"

section \<open>evaluate.py: evaluate\<close>

text \<open>
  The value stored under a key of a task's \<^verbatim>\<open>score\<close> dictionary is either the
  dictionary language \<open>\<mapsto>\<close> score of one metric, or a number (the \<^verbatim>\<open>avg_\<close> entries).
\<close>

datatype pyval = Num real | Dict scores

type_synonym score = "(string \<times> pyval) list"
type_synonym detailed_scores = "(string \<times> score) list"
type_synonym overall_scores = "(string \<times> real) list"

definition test_file :: "string \<Rightarrow> string \<Rightarrow> string \<Rightarrow> string \<Rightarrow> string" where
  "test_file folder task lg suffix =
     os_path_join folder [task, ''test-'' @ lg @ ''.'' @ suffix]"

text \<open>
  \<^verbatim>\<open>score[metric][lg] = score_lg[metric]\<close> for every metric of one language;
  \<^verbatim>\<open>score\<close> is a \<^verbatim>\<open>defaultdict(dict)\<close>, so a metric seen for the first time
  starts from the empty dictionary.
\<close>

fun store_metrics :: "string \<Rightarrow> scores \<Rightarrow> (string \<times> scores) list \<Rightarrow> (string \<times> scores) list" where
  "store_metrics lg [] score = score"
| "store_metrics lg ((metric, v) # rest) score =
     store_metrics lg rest
       (AList.update metric
          (AList.update lg v (case map_of score metric of None \<Rightarrow> [] | Some by_lang \<Rightarrow> by_lang))
          score)"

text \<open>The loop over the languages of one task (lines 118 to 128).\<close>

fun collect_scores ::
  "registry \<Rightarrow> fs \<Rightarrow> string \<Rightarrow> string \<Rightarrow> string \<Rightarrow> string \<Rightarrow> string list
     \<Rightarrow> (string \<times> scores) list \<Rightarrow> error + (string \<times> scores) list" where
  "collect_scores reg d prediction_folder label_folder task suffix [] score = Inr score"
| "collect_scores reg d prediction_folder label_folder task suffix (lg # langs) score =
     (case evaluate_one_task reg d (test_file prediction_folder task lg suffix)
             (test_file label_folder task lg suffix) task (Some lg) of
        Inl e \<Rightarrow> Inl e
      | Inr score_lg \<Rightarrow>
          collect_scores reg d prediction_folder label_folder task suffix langs
            (store_metrics lg score_lg score))"

text \<open>The averaging loop (lines 130 to 132).\<close>

fun average_scores :: "(string \<times> scores) list \<Rightarrow> scores \<Rightarrow> error + scores" where
  "average_scores [] avg_score = Inr avg_score"
| "average_scores ((m, by_lang) # rest) avg_score =
     (if length by_lang = 0 then Inl ZeroDivisionError
      else average_scores rest
             (AList.update (''avg_'' @ m)
                (sum_list (map snd by_lang) / real (length by_lang)) avg_score))"

text \<open>\<^verbatim>\<open>score.update(avg_score)\<close> (line 133).\<close>

fun dict_update :: "score \<Rightarrow> scores \<Rightarrow> score" where
  "dict_update sc [] = sc"
| "dict_update sc ((k, v) # rest) = dict_update (AList.update k (Num v) sc) rest"

text \<open>
  The choice of \<^verbatim>\<open>avg_metric\<close> (lines 134 to 140). Reading a missing key of the
  \<^verbatim>\<open>defaultdict\<close> gives the empty dictionary, and adding a dictionary raises
  \<^verbatim>\<open>TypeError\<close>.
\<close>

definition default_get :: "score \<Rightarrow> string \<Rightarrow> pyval" where
  "default_get sc k = (case map_of sc k of None \<Rightarrow> Dict [] | Some v \<Rightarrow> v)"

definition summary_metric :: "registry \<Rightarrow> string \<Rightarrow> score \<Rightarrow> error + score" where
  "summary_metric reg task sc =
     (case getitem (GROUP2TASK reg) ''qa'' of
        Inl e \<Rightarrow> Inl e
      | Inr qa \<Rightarrow>
          if task \<in> set qa then
            (case (default_get sc ''avg_exact_match'', default_get sc ''avg_f1'') of
               (Num a, Num b) \<Rightarrow> Inr (AList.update ''avg_metric'' (Num ((a + b) / 2)) sc)
             | _ \<Rightarrow> Inl (TypeError ''unsupported operand type(s) for +''))
          else
            (case map_of sc ''avg_f1'' of
               Some v \<Rightarrow> Inr (AList.update ''avg_metric'' v sc)
             | None \<Rightarrow>
                 (case map_of sc ''avg_accuracy'' of
                    Some v \<Rightarrow> Inr (AList.update ''avg_metric'' v sc)
                  | None \<Rightarrow> Inr sc)))"

text \<open>The body of the task loop for one eligible task (lines 115 to 140).\<close>

definition evaluate_task ::
  "registry \<Rightarrow> fs \<Rightarrow> string \<Rightarrow> string \<Rightarrow> string \<Rightarrow> string list \<Rightarrow> error + score" where
  "evaluate_task reg d prediction_folder label_folder task langs =
     (case getitem (GROUP2TASK reg) ''qa'' of
        Inl e \<Rightarrow> Inl e
      | Inr qa \<Rightarrow>
     (case collect_scores reg d prediction_folder label_folder task
             (if task \<in> set qa then ''json'' else ''tsv'') langs [] of
        Inl e \<Rightarrow> Inl e
      | Inr by_metric \<Rightarrow>
     (case average_scores by_metric [] of
        Inl e \<Rightarrow> Inl e
      | Inr avg_score \<Rightarrow>
          summary_metric reg task
            (dict_update (map (\<lambda>(m, by_lang). (m, Dict by_lang)) by_metric) avg_score))))"

text \<open>The task loop (lines 113 to 141).\<close>

fun task_loop ::
  "registry \<Rightarrow> fs \<Rightarrow> string \<Rightarrow> string \<Rightarrow> string list \<Rightarrow> string list
     \<Rightarrow> (string \<times> string list) list \<Rightarrow> detailed_scores \<Rightarrow> error + detailed_scores" where
  "task_loop reg d prediction_folder label_folder prediction_tasks label_tasks [] detailed =
     Inr detailed"
| "task_loop reg d prediction_folder label_folder prediction_tasks label_tasks
     ((task, langs) # rest) detailed =
     (if task \<in> set prediction_tasks \<and> task \<in> set label_tasks then
        (case evaluate_task reg d prediction_folder label_folder task langs of
           Inl e \<Rightarrow> Inl e
         | Inr sc \<Rightarrow>
             task_loop reg d prediction_folder label_folder prediction_tasks label_tasks rest
               (AList.update task sc detailed))
      else task_loop reg d prediction_folder label_folder prediction_tasks label_tasks rest
             detailed)"

text \<open>
  \<^verbatim>\<open>sum(detailed_scores[task]['avg_metric'] for task in tasks) / len(tasks)\<close>:
  the sum starts at 0 and adds one number per task; a task whose score has no number
  under \<^verbatim>\<open>avg_metric\<close> makes the addition raise.
\<close>

fun sum_avg_metric :: "detailed_scores \<Rightarrow> string list \<Rightarrow> real \<Rightarrow> error + real" where
  "sum_avg_metric detailed [] acc = Inr acc"
| "sum_avg_metric detailed (task # tasks) acc =
     (case getitem detailed task of
        Inl e \<Rightarrow> Inl e
      | Inr sc \<Rightarrow>
          (case default_get sc ''avg_metric'' of
             Num v \<Rightarrow> sum_avg_metric detailed tasks (acc + v)
           | Dict x \<Rightarrow> Inl (TypeError ''unsupported operand type(s) for +'')))"

definition mean_avg_metric :: "detailed_scores \<Rightarrow> string list \<Rightarrow> error + real" where
  "mean_avg_metric detailed tasks =
     (case sum_avg_metric detailed tasks 0 of
        Inl e \<Rightarrow> Inl e
      | Inr s \<Rightarrow> if length tasks = 0 then Inl ZeroDivisionError
                 else Inr (s / real (length tasks)))"

text \<open>The loop over the groups (lines 161 to 165).\<close>

fun group_loop ::
  "detailed_scores \<Rightarrow> (string \<times> string list) list \<Rightarrow> overall_scores \<Rightarrow> error + overall_scores" where
  "group_loop detailed [] overall = Inr overall"
| "group_loop detailed ((group_name, group_tasks) # rest) overall =
     (if set group_tasks - set (map fst detailed) = {} then
        (case mean_avg_metric detailed group_tasks of
           Inl e \<Rightarrow> Inl e
         | Inr v \<Rightarrow> group_loop detailed rest (AList.update group_name v overall))
      else group_loop detailed rest overall)"

text \<open>
  The overall score of all tasks (lines 150 to 158): \<^verbatim>\<open>overall_scores\<close> starts empty
  and receives \<^verbatim>\<open>all_task\<close> when the registered and the evaluated tasks are the same
  set. The set \<^verbatim>\<open>all_tasks\<close> is traversed in the order of the keys of
  \<^verbatim>\<open>TASK2LANGS\<close>.
\<close>

definition all_task_score :: "registry \<Rightarrow> detailed_scores \<Rightarrow> error + overall_scores" where
  "all_task_score reg detailed =
     (if set (map fst (TASK2LANGS reg)) = set (map fst detailed)
      then (case mean_avg_metric detailed (remdups (map fst (TASK2LANGS reg))) of
              Inl e \<Rightarrow> Inl e
            | Inr v \<Rightarrow> Inr [(''all_task'', v)])
      else Inr [])"

text \<open>
  \<^verbatim>\<open>evaluate\<close> with \<^verbatim>\<open>verbose=False\<close>. \<^verbatim>\<open>next(os.walk(folder))\<close> raises
  \<^verbatim>\<open>StopIteration\<close> when the folder cannot be listed.
\<close>

definition evaluate ::
  "registry \<Rightarrow> fs \<Rightarrow> string \<Rightarrow> string \<Rightarrow> error + (overall_scores \<times> detailed_scores)" where
  "evaluate reg d prediction_folder label_folder =
     (case subdirs d prediction_folder of
        None \<Rightarrow> Inl StopIteration
      | Some prediction_tasks \<Rightarrow>
     (case subdirs d label_folder of
        None \<Rightarrow> Inl StopIteration
      | Some label_tasks \<Rightarrow>
     (case task_loop reg d prediction_folder label_folder prediction_tasks label_tasks
             (TASK2LANGS reg) [] of
        Inl e \<Rightarrow> Inl e
      | Inr detailed \<Rightarrow>
     (case all_task_score reg detailed of
        Inl e \<Rightarrow> Inl e
      | Inr overall \<Rightarrow>
     (case group_loop detailed (GROUP2TASK reg) overall of
        Inl e \<Rightarrow> Inl e
      | Inr overall' \<Rightarrow> Inr (overall', detailed))))))"

section \<open>preprocess.py\<close>

text \<open>
  \<^verbatim>\<open>csv.writer(fout, delimiter='\t').writerow(row)\<close> with the defaults of the
  standard library: a field holding the delimiter, the quote character, a carriage return
  or a line feed is written between quote characters with its quote characters doubled;
  fields are joined by the delimiter; the row ends with carriage return and line feed.
\<close>

definition csv_field :: "string \<Rightarrow> string" where
  "csv_field f =
     (if list_ex (\<lambda>c. c \<in> set [CHR 0x09, CHR 0x22, CHR 0x0D, CHR 0x0A]) f
      then [CHR 0x22] @ concat (map (\<lambda>c. if c = CHR 0x22 then [c, c] else [c]) f) @ [CHR 0x22]
      else f)"

definition writerow :: "string list \<Rightarrow> string" where
  "writerow row =
     (if row = [[]] then [CHR 0x22, CHR 0x22] else join [CHR 0x09] (map csv_field row))
       @ [CHR 0x0D, CHR 0x0A]"

text \<open>
  The reading loop of \<^verbatim>\<open>_preprocess_one_file\<close>: \<open>i\<close> is the index that
  \<^verbatim>\<open>enumerate\<close> supplies; \<^verbatim>\<open>items[3]\<close> on a line of fewer than four columns raises
  \<^verbatim>\<open>IndexError\<close>.
\<close>

fun read_rows :: "nat \<Rightarrow> string list \<Rightarrow> string list list \<Rightarrow> error + string list list" where
  "read_rows i [] data = Inr data"
| "read_rows i (line # rest) data =
     (if i = 0 then read_rows (Suc i) rest data
      else if length (split_on (CHR 0x09) (strip line)) < 4 then Inl IndexError
      else read_rows (Suc i) rest
             (data @ [[join '' '' (split_on CHR '' '' (strip (split_on (CHR 0x09) (strip line) ! 1))),
                       join '' '' (split_on CHR '' '' (strip (split_on (CHR 0x09) (strip line) ! 2))),
                       split_on (CHR 0x09) (strip line) ! 3]]))"

text \<open>
  The body of the nested function \<^verbatim>\<open>_preprocess_one_file(infile)\<close>. Its only
  parameter is \<open>infile\<close>; \<open>outfile\<close> is a variable of the enclosing
  \<^verbatim>\<open>pawsx_preprocess\<close>, read when the body runs. The output file is opened after the
  whole input has been read.
\<close>

definition preprocess_one_file :: "string \<Rightarrow> string \<Rightarrow> fs \<Rightarrow> (error + unit) \<times> fs" where
  "preprocess_one_file outfile infile d =
     (case open_read d infile of
        Inl e \<Rightarrow> (Inl e, d)
      | Inr text \<Rightarrow>
     (case read_rows 0 (file_lines text) [] of
        Inl e \<Rightarrow> (Inl e, d)
      | Inr data \<Rightarrow>
     (case open_write d outfile (concat (map writerow data)) of
        Inl e \<Rightarrow> (Inl e, d)
      | Inr d' \<Rightarrow> (Inr (), d'))))"

text \<open>
  A Python function value: its name, its positional parameters and its body. A call
  binds the arguments to the parameters first and raises \<^verbatim>\<open>TypeError\<close> when their
  numbers differ; the body runs only after that. The error value carries the name of the
  function, not the wording of the interpreter's message.
\<close>

record pyfunction =
  fname :: string
  params :: "string list"
  body :: "string list \<Rightarrow> fs \<Rightarrow> (error + unit) \<times> fs"

definition call :: "pyfunction \<Rightarrow> string list \<Rightarrow> fs \<Rightarrow> (error + unit) \<times> fs" where
  "call f args d =
     (if length args = length (params f) then body f args d
      else (Inl (TypeError (fname f @ ''() positional arguments'')), d))"

definition preprocess_one_file_def :: "string \<Rightarrow> pyfunction" where
  "preprocess_one_file_def outfile =
     \<lparr> fname = ''_preprocess_one_file'', params = [''infile''],
       body = (\<lambda>args. preprocess_one_file outfile (hd args)) \<rparr>"

record args =
  data_dir :: string
  output_dir :: string

record world =
  disk :: fs
  stdout :: "string list"

definition path_exists :: "fs \<Rightarrow> string \<Rightarrow> bool" where
  "path_exists d p =
     (case files d p of
        Some text \<Rightarrow> True
      | None \<Rightarrow> (case subdirs d p of Some names \<Rightarrow> True | None \<Rightarrow> False))"

text \<open>A \<^verbatim>\<open>for\<close> loop whose body may raise: the first exception ends the loop.\<close>

fun for_each :: "'a list \<Rightarrow> ('a \<Rightarrow> world \<Rightarrow> (error + unit) \<times> world) \<Rightarrow> world \<Rightarrow> (error + unit) \<times> world" where
  "for_each [] f w = (Inr (), w)"
| "for_each (x # xs) f w =
     (case f x w of
        (Inl e, w') \<Rightarrow> (Inl e, w')
      | (Inr u, w') \<Rightarrow> for_each xs f w')"

definition split2file :: "(string \<times> string) list" where
  "split2file = [(''train'', ''train''), (''test'', ''test_2k''), (''dev'', ''dev_2k'')]"

text \<open>The body of the inner loop of \<^verbatim>\<open>pawsx_preprocess\<close> (lines 45 to 50).\<close>

definition preprocess_split :: "args \<Rightarrow> string \<Rightarrow> string \<Rightarrow> world \<Rightarrow> (error + unit) \<times> world" where
  "preprocess_split a lang split w =
     (case getitem split2file split of
        Inl e \<Rightarrow> (Inl e, w)
      | Inr file \<Rightarrow>
     (case call (preprocess_one_file_def
                   (os_path_join (output_dir a) [split @ ''-'' @ lang @ ''.tsv'']))
             [os_path_join (data_dir a) [lang, file @ ''.tsv''],
              os_path_join (output_dir a) [split @ ''-'' @ lang @ ''.tsv'']] (disk w) of
        (Inl e, d') \<Rightarrow> (Inl e, w\<lparr>disk := d'\<rparr>)
      | (Inr u, d') \<Rightarrow>
          (Inr (),
           \<lparr> disk = d',
             stdout = stdout w @ [''finish preprocessing ''
                        @ os_path_join (output_dir a) [split @ ''-'' @ lang @ ''.tsv'']] \<rparr>)))"

text \<open>
  \<^verbatim>\<open>pawsx_preprocess\<close>. \<^verbatim>\<open>os.makedirs\<close> belongs to the operating system: it is the
  parameter \<open>makedirs\<close>, which returns the changed file system or raises.
\<close>

definition pawsx_preprocess ::
  "(fs \<Rightarrow> string \<Rightarrow> error + fs) \<Rightarrow> args \<Rightarrow> world \<Rightarrow> (error + unit) \<times> world" where
  "pawsx_preprocess makedirs a w =
     (case (if path_exists (disk w) (output_dir a) then Inr (disk w)
            else makedirs (disk w) (output_dir a)) of
        Inl e \<Rightarrow> (Inl e, w)
      | Inr d' \<Rightarrow>
          for_each [''en'', ''de'', ''es'', ''fr'', ''ja'', ''ko'', ''zh'']
            (\<lambda>lang. for_each [''train'', ''test'', ''dev''] (preprocess_split a lang))
            (w\<lparr>disk := d'\<rparr>))"

section \<open>Reading a report\<close>



text \<open>The per-language dictionary of a metric, empty when the metric has none.\<close>

definition by_lang_of :: "(string \<times> scores) list \<Rightarrow> string \<Rightarrow> scores" where
  "by_lang_of sc m = (case map_of sc m of None \<Rightarrow> [] | Some by_lang \<Rightarrow> by_lang)"

text \<open>
  The shape of the dictionary that the language loop builds: distinct metric names, and
  under each a non-empty dictionary with distinct languages.
\<close>

definition well_formed :: "(string \<times> scores) list \<Rightarrow> bool" where
  "well_formed sc =
     (distinct (map fst sc)
      \<and> list_all (\<lambda>(m, by_lang). by_lang \<noteq> [] \<and> distinct (map fst by_lang)) sc)"

section \<open>Concrete inputs\<close>

text \<open>A tagged file with two examples and no blank line after the second.\<close>

definition tagged_file :: fs where
  "tagged_file =
     \<lparr> files = (\<lambda>p. if p = ''test-en.tsv''
                     then Some (''B-PER'' @ [CHR 0x0A] @ ''O'' @ [CHR 0x0A] @ [CHR 0x0A]
                                @ ''B-LOC'' @ [CHR 0x0A] @ ''O'' @ [CHR 0x0A])
                     else None),
       subdirs = (\<lambda>p. None) \<rparr>"

text \<open>A raw PAWS-X file: the header row and one row whose first sentence has two spaces.\<close>

definition raw_file :: fs where
  "raw_file =
     \<lparr> files = map_of
         [(''x-final/en/test_2k.tsv'',
           ''id'' @ [CHR 0x09] @ ''sentence1'' @ [CHR 0x09] @ ''sentence2'' @ [CHR 0x09]
             @ ''label'' @ [CHR 0x0A]
             @ ''1'' @ [CHR 0x09] @ ''the  cat'' @ [CHR 0x09] @ ''the cat'' @ [CHR 0x09]
             @ ''1'' @ [CHR 0x0A])],
       subdirs = map_of [(''x-final'', [''en'']), (''x-final/en'', []), (''paws_x'', [])] \<rparr>"

text \<open>The default command-line arguments of the normalisation and two worlds to run it in.\<close>

definition default_args :: args where
  "default_args = \<lparr> data_dir = ''./data/x-final'', output_dir = ''./data/paws_x'' \<rparr>"

definition raw_world :: world where
  "raw_world =
     \<lparr> disk = \<lparr> files = map_of [(''./data/x-final/en/train.tsv'', ''header'')],
                subdirs = map_of [(''./data/x-final'', [''en'']), (''./data/paws_x'', [])] \<rparr>,
       stdout = [] \<rparr>"

definition fresh_world :: world where
  "fresh_world =
     \<lparr> disk = \<lparr> files = map_of [(''./data/x-final/en/train.tsv'', ''header'')],
                subdirs = map_of [(''./data/x-final'', [''en''])] \<rparr>,
       stdout = [] \<rparr>"

definition create_dir :: "fs \<Rightarrow> string \<Rightarrow> error + fs" where
  "create_dir d p =
     (if p = [] then Inl (FileNotFoundError p)
      else Inr (d\<lparr>subdirs := (subdirs d)(p \<mapsto> [])\<rparr>))"

text \<open>A seqeval whose three scores are fixed numbers.\<close>

definition fixed_seqeval :: "real \<Rightarrow> real \<Rightarrow> real \<Rightarrow> seqeval" where
  "fixed_seqeval f p r =
     \<lparr> f1_score = (\<lambda>labels predictions. Inr f),
       precision_score = (\<lambda>labels predictions. Inr p),
       recall_score = (\<lambda>labels predictions. Inr r) \<rparr>"

text \<open>
  The tables of the module lack the group \<^verbatim>\<open>qa\<close> that \<^verbatim>\<open>evaluate\<close> looks up;
  \<open>with_qa\<close> adds it, with the three span-extraction tasks of the benchmark.
\<close>

definition with_qa :: "registry \<Rightarrow> registry" where
  "with_qa reg =
     reg\<lparr>GROUP2TASK := GROUP2TASK reg @ [(''qa'', [''xquad'', ''mlqa'', ''tydiqa''])]\<rparr>"

text \<open>
  A prediction folder and a label folder with the subfolder \<^verbatim>\<open>pawsx\<close> and one file per
  given language.
\<close>

definition submission :: "string list \<Rightarrow> string \<Rightarrow> string \<Rightarrow> fs" where
  "submission langs ptext ltext =
     \<lparr> files = map_of (map (\<lambda>lg. (''predictions/pawsx/test-'' @ lg @ ''.tsv'', ptext)) langs
                        @ map (\<lambda>lg. (''labels/pawsx/test-'' @ lg @ ''.tsv'', ltext)) langs),
       subdirs = map_of [(''predictions'', [''pawsx'']), (''labels'', [''pawsx''])] \<rparr>"

definition two_lines :: string where
  "two_lines = ''1'' @ [CHR 0x0A] @ ''0'' @ [CHR 0x0A]"

definition three_lines :: string where
  "three_lines = ''1'' @ [CHR 0x0A] @ ''0'' @ [CHR 0x0A] @ ''1'' @ [CHR 0x0A]"

text \<open>Tables with two tasks, both read by \<^verbatim>\<open>read_label\<close> and scored by \<^verbatim>\<open>accuracy\<close>.\<close>

definition two_tasks :: registry where
  "two_tasks =
     \<lparr> GROUP2TASK = [(''classification'', [''pawsx'', ''xnli'']),
                     (''qa'', [''xquad'', ''mlqa'', ''tydiqa''])],
       TASK2LANGS = [(''pawsx'', [''de'', ''en'']), (''xnli'', [''en''])],
       READER_FUNCTION = [(''pawsx'', read_label), (''xnli'', read_label)],
       METRIC_FUNCTION = [(''pawsx'', accuracy), (''xnli'', accuracy)] \<rparr>"

definition two_task_files :: "string \<Rightarrow> fs" where
  "two_task_files de_labels =
     \<lparr> files = map_of
         [(''predictions/pawsx/test-de.tsv'', two_lines),
          (''labels/pawsx/test-de.tsv'', de_labels),
          (''predictions/pawsx/test-en.tsv'', two_lines),
          (''labels/pawsx/test-en.tsv'', ''1'' @ [CHR 0x0A] @ ''1'' @ [CHR 0x0A]),
          (''predictions/xnli/test-en.tsv'', three_lines),
          (''labels/xnli/test-en.tsv'', three_lines)],
       subdirs = map_of [(''predictions'', [''pawsx'', ''xnli'']),
                         (''labels'', [''xnli'', ''pawsx''])] \<rparr>"


definition xnli_accuracy_score :: score where
  "xnli_accuracy_score =
     [(''accuracy'', Dict [(''en'', 100)]), (''avg_accuracy'', Num 100),
      (''avg_metric'', Num 100)]"




text \<open>Two roots without any task subfolder.\<close>

definition empty_folders :: fs where
  "empty_folders =
     \<lparr> files = (\<lambda>p. None),
       subdirs = map_of [(''predictions'', []), (''labels'', [])] \<rparr>"











section \<open>Properties of the readers and of accuracy\<close>

text \<open>
  C7. The tagged-sequence reader should return one label sequence per example and keep
  a last example that no blank line follows. The file of \<^const>\<open>tagged_file\<close> holds the
  two examples \<^verbatim>\<open>B-PER O\<close> and \<^verbatim>\<open>B-LOC O\<close> separated by one blank line and ends
  right after the second; \<^verbatim>\<open>read_tag\<close> returns the first example only.
\<close>

theorem read_tag_drops_last_example:
  "read_tag tagged_file ''test-en.tsv'' = Inr [Tags [''B-PER'', ''O'']]"
  by (simp add: read_tag_def open_read_def tagged_file_def strip_def isspace_def)

text \<open>
  The sum that \<^verbatim>\<open>accuracy\<close> computes counts the positions at which prediction and
  label agree.
\<close>

lemma correct_card:
  "length predictions = length labels \<Longrightarrow>
   correct labels predictions = card {i. i < length predictions \<and> predictions ! i = labels ! i}"
proof (induction predictions labels rule: list_induct2)
  case Nil
  show ?case by (simp add: correct_def)
next
  case (Cons p ps l ls)
  let ?S = "{i. i < length ps \<and> ps ! i = ls ! i}"
  have fin: "finite ?S" by simp
  have member: "(i < length (p # ps) \<and> (p # ps) ! i = (l # ls) ! i)
                  = (i \<in> (if p = l then {0} else {}) \<union> Suc ` ?S)" for i
    by (cases i) (auto simp: image_iff)
  have split: "{i. i < length (p # ps) \<and> (p # ps) ! i = (l # ls) ! i}
                = (if p = l then {0} else {}) \<union> Suc ` ?S"
    using member by blast
  have "card ((if p = l then {0} else {}) \<union> Suc ` ?S)
          = (if p = l then 1 else 0) + card ?S"
    using fin by (auto simp: card_insert_if card_image)
  with Cons.IH show ?case
    by (simp only: split) (simp add: correct_def)
qed

text \<open>
  C8. For gold and predicted sequences of the same positive length \<open>n\<close>, \<^verbatim>\<open>accuracy\<close>
  returns the one-entry mapping \<^verbatim>\<open>accuracy\<close> \<open>\<mapsto> 100 * k / n\<close>, where \<open>k\<close> is the
  number of positions at which the predicted label equals the gold label.
\<close>

theorem accuracy_percentage:
  assumes "length labels = length predictions" and "0 < length predictions"
  shows "accuracy labels predictions language =
           Inr [(''accuracy'',
                 100 * real (card {i. i < length predictions \<and> predictions ! i = labels ! i})
                   / real (length predictions))]"
  using assms by (simp add: accuracy_def correct_card)

text \<open>
  The example of the specification: predictions \<^verbatim>\<open>a b c\<close> against labels
  \<^verbatim>\<open>a x c\<close> agree at two of three positions; the accuracy is \<open>200 / 3\<close>, which is
  66.67 to two decimals.
\<close>

theorem accuracy_percentage_witness:
  "accuracy [Label ''a'', Label ''x'', Label ''c''] [Label ''a'', Label ''b'', Label ''c''] None
     = Inr [(''accuracy'', 200 / 3)]
   \<and> card {i. i < length [Label ''a'', Label ''b'', Label ''c'']
              \<and> [Label ''a'', Label ''b'', Label ''c''] ! i
                  = [Label ''a'', Label ''x'', Label ''c''] ! i} = 2
   \<and> round ((200 / 3 :: real) * 100) = 6667"
proof -
  have set_eq: "{i. i < length [Label ''a'', Label ''b'', Label ''c'']
              \<and> [Label ''a'', Label ''b'', Label ''c''] ! i
                  = [Label ''a'', Label ''x'', Label ''c''] ! i} = {0, 2}"
    by (auto simp: nth_Cons' less_Suc_eq numeral_3_eq_3 split: if_splits)
  have r: "round ((200 / 3 :: real) * 100) = 6667"
    by (simp add: round_def)
  have acc: "accuracy [Label ''a'', Label ''x'', Label ''c'']
               [Label ''a'', Label ''b'', Label ''c''] None
     = Inr [(''accuracy'',
             100 * real (card {i. i < length [Label ''a'', Label ''b'', Label ''c'']
              \<and> [Label ''a'', Label ''b'', Label ''c''] ! i
                  = [Label ''a'', Label ''x'', Label ''c''] ! i})
               / real (length [Label ''a'', Label ''b'', Label ''c'']))]"
    by (rule accuracy_percentage) simp_all
  show ?thesis
    unfolding acc set_eq using r by simp
qed

section \<open>Properties of the normalisation\<close>

text \<open>
  Splitting at a character and joining with the same character gives the string back:
  the expression \<^verbatim>\<open>' '.join(s.split(' '))\<close> changes nothing.
\<close>

lemma join_split_on: "join [sep] (split_on sep s) = s"
proof (induction s)
  case Nil
  show ?case by simp
next
  case (Cons c cs)
  show ?case
  proof (cases "c = sep")
    case True
    then show ?thesis using Cons
      by (cases "split_on sep cs") auto
  next
    case False
    then show ?thesis using Cons
      by (cases "split_on sep cs"; cases "tl (split_on sep cs)") auto
  qed
qed

text \<open>
  C9. The normalisation should drop the header row and write, for every other row, the
  columns sentence1, sentence2 and label with every run of spaces inside a sentence
  collapsed to one space. Run on \<^const>\<open>raw_file\<close>, the body of
  \<^verbatim>\<open>_preprocess_one_file\<close> drops the header and writes the three columns, but the
  two spaces of \<^verbatim>\<open>the  cat\<close> are still there; and no input is ever changed by the
  split-and-join expression.
\<close>

theorem preprocess_keeps_double_space:
  "files (snd (preprocess_one_file ''paws_x/test-en.tsv'' ''x-final/en/test_2k.tsv'' raw_file))
     ''paws_x/test-en.tsv''
     = Some (''the  cat'' @ [CHR 0x09] @ ''the cat'' @ [CHR 0x09] @ ''1'' @ [CHR 0x0D, CHR 0x0A])
   \<and> (\<forall>s. join '' '' (split_on CHR '' '' s) = s)"
proof -
  have "files (snd (preprocess_one_file ''paws_x/test-en.tsv'' ''x-final/en/test_2k.tsv''
                      raw_file)) ''paws_x/test-en.tsv''
     = Some (''the  cat'' @ [CHR 0x09] @ ''the cat'' @ [CHR 0x09] @ ''1'' @ [CHR 0x0D, CHR 0x0A])"
    by (simp add: preprocess_one_file_def open_read_def open_write_def dirname_def raw_file_def
        strip_def isspace_def writerow_def csv_field_def)
  moreover have "\<forall>s. join '' '' (split_on CHR '' '' s) = s"
    using join_split_on [of "CHR '' ''"] by simp
  ultimately show ?thesis ..
qed

lemma preprocess_split_raises:
  "map_of split2file split \<noteq> None \<Longrightarrow>
   preprocess_split a lang split w
     = (Inl (TypeError ''_preprocess_one_file() positional arguments''), w)"
  by (auto simp: preprocess_split_def getitem_def call_def preprocess_one_file_def_def)

text \<open>
  C10. Whatever its arguments, \<^verbatim>\<open>pawsx_preprocess\<close> never normalises a file: once the
  output directory exists or has been created, the first call
  \<^verbatim>\<open>_preprocess_one_file(infile, outfile)\<close> passes two arguments to a function of one
  parameter and raises \<^verbatim>\<open>TypeError\<close>; the file system is then what the directory step
  left and nothing has been printed. In every case the function ends with an exception.
\<close>

theorem pawsx_preprocess_raises_TypeError:
  "(path_exists (disk w) (output_dir a) \<longrightarrow>
      pawsx_preprocess makedirs a w
        = (Inl (TypeError ''_preprocess_one_file() positional arguments''), w))
   \<and> (\<forall>d'. \<not> path_exists (disk w) (output_dir a)
           \<and> makedirs (disk w) (output_dir a) = Inr d' \<longrightarrow>
      pawsx_preprocess makedirs a w
        = (Inl (TypeError ''_preprocess_one_file() positional arguments''), w\<lparr>disk := d'\<rparr>))
   \<and> isl (fst (pawsx_preprocess makedirs a w))
   \<and> stdout (snd (pawsx_preprocess makedirs a w)) = stdout w"
proof -
  have first: "for_each [''en'', ''de'', ''es'', ''fr'', ''ja'', ''ko'', ''zh'']
            (\<lambda>lang. for_each [''train'', ''test'', ''dev''] (preprocess_split a lang)) w0
        = (Inl (TypeError ''_preprocess_one_file() positional arguments''), w0)" for w0
    by (simp add: preprocess_split_raises split2file_def)
  show ?thesis
    by (auto simp: pawsx_preprocess_def first simp del: for_each.simps split: sum.splits)
qed

theorem pawsx_preprocess_raises_TypeError_witness:
  "path_exists (disk raw_world) (output_dir default_args)
   \<and> pawsx_preprocess create_dir default_args raw_world
        = (Inl (TypeError ''_preprocess_one_file() positional arguments''), raw_world)
   \<and> \<not> path_exists (disk fresh_world) (output_dir default_args)
   \<and> create_dir (disk fresh_world) (output_dir default_args) = Inr (disk raw_world)
   \<and> pawsx_preprocess create_dir default_args fresh_world
        = (Inl (TypeError ''_preprocess_one_file() positional arguments''), raw_world)"
proof -
  have ex: "path_exists (disk raw_world) (output_dir default_args)"
    by (simp add: path_exists_def raw_world_def default_args_def)
  have nex: "\<not> path_exists (disk fresh_world) (output_dir default_args)"
    by (simp add: path_exists_def fresh_world_def default_args_def)
  have mk: "create_dir (disk fresh_world) (output_dir default_args) = Inr (disk raw_world)"
    by (auto simp: create_dir_def fresh_world_def raw_world_def default_args_def)
  have same: "fresh_world\<lparr>disk := disk raw_world\<rparr> = raw_world"
    by (simp add: fresh_world_def raw_world_def)
  from pawsx_preprocess_raises_TypeError [of raw_world default_args create_dir] ex
  have a: "pawsx_preprocess create_dir default_args raw_world
        = (Inl (TypeError ''_preprocess_one_file() positional arguments''), raw_world)"
    by blast
  from pawsx_preprocess_raises_TypeError [of fresh_world default_args create_dir] nex mk
  have "pawsx_preprocess create_dir default_args fresh_world
        = (Inl (TypeError ''_preprocess_one_file() positional arguments''),
           fresh_world\<lparr>disk := disk raw_world\<rparr>)"
    by blast
  with ex nex mk a same show ?thesis by simp
qed

section \<open>Exceptions leave evaluate\<close>

lemmas engine_defs = evaluate_def evaluate_task_def evaluate_one_task_def getitem_def
  test_file_def os_path_join_def join2_def read_label_def open_read_def strip_def isspace_def
  summary_metric_def default_get_def mean_avg_metric_def all_task_score_def accuracy_def
  correct_def f1_def mismatch_message_def

text \<open>
  No loop of \<^verbatim>\<open>evaluate\<close> catches anything: an exception raised for one language
  ends the language loop, the task loop and the function.
\<close>

lemma collect_scores_raises:
  assumes "lg \<in> set langs"
    and "isl (evaluate_one_task reg d (test_file pf task lg sfx) (test_file lf task lg sfx)
               task (Some lg))"
  shows "isl (collect_scores reg d pf lf task sfx langs sc)"
  using assms by (induction langs arbitrary: sc) (auto split: sum.splits)

lemma evaluate_task_raises:
  assumes "lg \<in> set langs"
    and "\<And>qa. map_of (GROUP2TASK reg) ''qa'' = Some qa \<Longrightarrow>
           isl (evaluate_one_task reg d
                  (test_file pf task lg (if task \<in> set qa then ''json'' else ''tsv''))
                  (test_file lf task lg (if task \<in> set qa then ''json'' else ''tsv''))
                  task (Some lg))"
  shows "isl (evaluate_task reg d pf lf task langs)"
proof (cases "map_of (GROUP2TASK reg) ''qa''")
  case None
  then show ?thesis by (simp add: evaluate_task_def getitem_def)
next
  case (Some qa)
  from assms(2) [OF Some] assms(1)
  have "isl (collect_scores reg d pf lf task (if task \<in> set qa then ''json'' else ''tsv'')
               langs [])"
    by (rule collect_scores_raises [rotated])
  with Some show ?thesis
    by (auto simp: evaluate_task_def getitem_def split: sum.splits)
qed

lemma task_loop_raises:
  assumes "(task, langs) \<in> set rows" and "task \<in> set ps" and "task \<in> set ls"
    and "isl (evaluate_task reg d pf lf task langs)"
  shows "isl (task_loop reg d pf lf ps ls rows detailed)"
  using assms by (induction rows arbitrary: detailed) (auto split: sum.splits)

lemma evaluate_raises:
  assumes "subdirs d pf = Some ps" and "subdirs d lf = Some ls"
    and "(task, langs) \<in> set (TASK2LANGS reg)" and "task \<in> set ps" and "task \<in> set ls"
    and "isl (evaluate_task reg d pf lf task langs)"
  shows "isl (evaluate reg d pf lf)"
proof -
  have "isl (task_loop reg d pf lf ps ls (TASK2LANGS reg) [])"
    using assms(3-6) by (rule task_loop_raises)
  then show ?thesis
    using assms(1,2) by (auto simp: evaluate_def split: sum.splits)
qed

text \<open>
  C1. For an eligible task the engine should pick the suffix \<^verbatim>\<open>json\<close> or \<^verbatim>\<open>tsv\<close> by
  membership in the group \<^verbatim>\<open>qa\<close>, and for \<^verbatim>\<open>pawsx\<close> this should give \<^verbatim>\<open>tsv\<close>
  without a lookup failure. With the tables of the module, whenever \<^verbatim>\<open>pawsx\<close> is a
  subfolder of both roots, \<^verbatim>\<open>evaluate\<close> raises \<^verbatim>\<open>KeyError('qa')\<close>: the lookup
  \<^verbatim>\<open>GROUP2TASK["qa"]\<close> of line 115 finds no such group.
\<close>

theorem eligible_pawsx_raises_KeyError:
  assumes "subdirs d pf = Some ps" and "subdirs d lf = Some ls"
    and "''pawsx'' \<in> set ps" and "''pawsx'' \<in> set ls"
  shows "evaluate (tables sq) d pf lf = Inl (KeyError ''qa'')"
  using assms by (simp add: evaluate_def tables_def evaluate_task_def getitem_def)

theorem eligible_pawsx_raises_KeyError_witness:
  "evaluate (tables (fixed_seqeval 1 1 1))
     (submission [''de'', ''en'', ''es'', ''fr'', ''ja'', ''ko'', ''zh''] two_lines two_lines)
     ''predictions'' ''labels'' = Inl (KeyError ''qa'')"
  by (rule eligible_pawsx_raises_KeyError [where ps = "[''pawsx'']" and ls = "[''pawsx'']"])
     (simp_all add: submission_def)

lemma reader_absent:
  assumes "rd = read_label \<or> rd = read_tag" and "files d p = None"
  shows "rd d p = Inl (FileNotFoundError p)"
  using assms by (auto simp: read_label_def read_tag_def open_read_def)

lemma reader_present:
  assumes "rd = read_label \<or> rd = read_tag" and "files d p = Some content"
  shows "\<exists>xs. rd d p = Inr xs"
  using assms by (auto simp: read_label_def read_tag_def open_read_def)

text \<open>
  C2, as stated: a language whose prediction or label file is absent is skipped without
  an error. The submission below has the files of every language of \<^verbatim>\<open>pawsx\<close> except
  \<^verbatim>\<open>de\<close>. Reading the absent file raises \<^verbatim>\<open>FileNotFoundError\<close> in
  \<^verbatim>\<open>evaluate_one_task\<close>, and (once the group \<^verbatim>\<open>qa\<close> is defined) that is what
  \<^verbatim>\<open>evaluate\<close> raises: the language is not skipped.
\<close>

theorem missing_language_not_skipped:
  "evaluate (with_qa (tables (fixed_seqeval 1 1 1)))
     (submission [''en'', ''es'', ''fr'', ''ja'', ''ko'', ''zh''] two_lines two_lines)
     ''predictions'' ''labels''
     = Inl (FileNotFoundError ''predictions/pawsx/test-de.tsv'')
   \<and> evaluate_one_task (tables (fixed_seqeval 1 1 1))
       (submission [''en'', ''es'', ''fr'', ''ja'', ''ko'', ''zh''] two_lines two_lines)
       ''predictions/pawsx/test-de.tsv'' ''labels/pawsx/test-de.tsv'' ''pawsx'' (Some ''de'')
     = Inl (FileNotFoundError ''predictions/pawsx/test-de.tsv'')"
  by (simp add: engine_defs with_qa_def tables_def submission_def)

text \<open>
  C2, amended. Let a task be eligible, read by one of the two readers of the module, and
  let one of its declared languages lack the prediction file or the label file. Then
  \<^verbatim>\<open>evaluate\<close> ends with an exception and returns no scores. The exception of
  \<^verbatim>\<open>evaluate_one_task\<close> is \<^verbatim>\<open>FileNotFoundError\<close> for the prediction file when that
  is absent, and for the label file when only that is absent.
\<close>

theorem missing_file_raises:
  assumes dirs: "subdirs d pf = Some ps" "subdirs d lf = Some ls"
    and elig: "task \<in> set ps" "task \<in> set ls"
    and decl: "(task, langs) \<in> set (TASK2LANGS reg)" "lg \<in> set langs"
    and rd: "map_of (READER_FUNCTION reg) task = Some rd" "rd = read_label \<or> rd = read_tag"
    and absent: "\<And>qa. map_of (GROUP2TASK reg) ''qa'' = Some qa \<Longrightarrow>
           files d (test_file pf task lg (if task \<in> set qa then ''json'' else ''tsv'')) = None
           \<or> files d (test_file lf task lg (if task \<in> set qa then ''json'' else ''tsv'')) = None"
  shows "isl (evaluate reg d pf lf)
     \<and> (\<forall>p l lang. files d p = None \<longrightarrow>
           evaluate_one_task reg d p l task lang = Inl (FileNotFoundError p))
     \<and> (\<forall>p l lang. files d p \<noteq> None \<and> files d l = None \<longrightarrow>
           evaluate_one_task reg d p l task lang = Inl (FileNotFoundError l))"
proof -
  have one_p: "evaluate_one_task reg d p l task lang = Inl (FileNotFoundError p)"
    if "files d p = None" for p l lang
    using rd reader_absent [OF rd(2) that]
    by (simp add: evaluate_one_task_def getitem_def)
  have one_l: "evaluate_one_task reg d p l task lang = Inl (FileNotFoundError l)"
    if "files d p \<noteq> None" and "files d l = None" for p l lang
  proof -
    from that(1) obtain content where "files d p = Some content" by auto
    from reader_present [OF rd(2) this] obtain xs where "rd d p = Inr xs" ..
    with rd reader_absent [OF rd(2) that(2)] show ?thesis
      by (simp add: evaluate_one_task_def getitem_def)
  qed
  have "isl (evaluate_one_task reg d
                  (test_file pf task lg (if task \<in> set qa then ''json'' else ''tsv''))
                  (test_file lf task lg (if task \<in> set qa then ''json'' else ''tsv''))
                  task (Some lg))"
    if "map_of (GROUP2TASK reg) ''qa'' = Some qa" for qa
    using absent [OF that] one_p one_l by (metis sum.disc(1))
  with decl(2) have "isl (evaluate_task reg d pf lf task langs)"
    by (rule evaluate_task_raises)
  with dirs decl(1) elig have "isl (evaluate reg d pf lf)"
    by (rule evaluate_raises)
  with one_p one_l show ?thesis by blast
qed

theorem missing_file_raises_witness:
  "isl (evaluate (with_qa (tables (fixed_seqeval 1 1 1)))
          (submission [''en'', ''es'', ''fr'', ''ja'', ''ko'', ''zh''] two_lines two_lines)
          ''predictions'' ''labels'')
   \<and> evaluate_one_task (with_qa (tables (fixed_seqeval 1 1 1)))
       (submission [''en'', ''es'', ''fr'', ''ja'', ''ko'', ''zh''] two_lines two_lines)
       ''predictions/pawsx/test-de.tsv'' ''labels/pawsx/test-de.tsv'' ''pawsx'' (Some ''de'')
     = Inl (FileNotFoundError ''predictions/pawsx/test-de.tsv'')
   \<and> isl (evaluate (tables (fixed_seqeval 1 1 1))
          (submission [''en'', ''es'', ''fr'', ''ja'', ''ko'', ''zh''] two_lines two_lines)
          ''predictions'' ''labels'')"
proof -
  let ?d = "submission [''en'', ''es'', ''fr'', ''ja'', ''ko'', ''zh''] two_lines two_lines"
  let ?sq = "fixed_seqeval 1 1 1"
  have gone: "files ?d ''predictions/pawsx/test-de.tsv'' = None"
    by (simp add: submission_def)
  have "isl (evaluate (with_qa (tables ?sq)) ?d ''predictions'' ''labels'')
     \<and> (\<forall>p l lang. files ?d p = None \<longrightarrow>
           evaluate_one_task (with_qa (tables ?sq)) ?d p l ''pawsx'' lang
             = Inl (FileNotFoundError p))
     \<and> (\<forall>p l lang. files ?d p \<noteq> None \<and> files ?d l = None \<longrightarrow>
           evaluate_one_task (with_qa (tables ?sq)) ?d p l ''pawsx'' lang
             = Inl (FileNotFoundError l))"
  proof (rule missing_file_raises [where ps = "[''pawsx'']" and ls = "[''pawsx'']"
        and langs = "[''de'', ''en'', ''es'', ''fr'', ''ja'', ''ko'', ''zh'']"
        and lg = "''de''" and rd = read_label])
    fix qa assume "map_of (GROUP2TASK (with_qa (tables ?sq))) ''qa'' = Some qa"
    then have "''pawsx'' \<notin> set qa" by (auto simp: with_qa_def tables_def)
    with gone show "files ?d (test_file ''predictions'' ''pawsx'' ''de''
                      (if ''pawsx'' \<in> set qa then ''json'' else ''tsv'')) = None
           \<or> files ?d (test_file ''labels'' ''pawsx'' ''de''
                      (if ''pawsx'' \<in> set qa then ''json'' else ''tsv'')) = None"
      by (simp add: test_file_def os_path_join_def join2_def)
  qed (simp_all add: submission_def with_qa_def tables_def)
  with gone have a: "isl (evaluate (with_qa (tables ?sq)) ?d ''predictions'' ''labels'')
     \<and> evaluate_one_task (with_qa (tables ?sq)) ?d
         ''predictions/pawsx/test-de.tsv'' ''labels/pawsx/test-de.tsv'' ''pawsx'' (Some ''de'')
       = Inl (FileNotFoundError ''predictions/pawsx/test-de.tsv'')"
    by blast
  have b: "isl (evaluate (tables ?sq) ?d ''predictions'' ''labels'')"
    using missing_file_raises [of ?d "''predictions''" "[''pawsx'']" "''labels''" "[''pawsx'']"
        "''pawsx''" "[''de'', ''en'', ''es'', ''fr'', ''ja'', ''ko'', ''zh'']" "tables ?sq"
        "''de''" read_label]
    by (simp add: submission_def tables_def test_file_def os_path_join_def join2_def)
  from a b show ?thesis by blast
qed

text \<open>
  C3, as stated: a count mismatch fails one task only and every other task still
  completes. In the tables \<^const>\<open>two_tasks\<close> the files of \<^verbatim>\<open>pawsx\<close> for \<^verbatim>\<open>de\<close> hold
  two predictions and three labels, and the files of \<^verbatim>\<open>xnli\<close> are in order (its own
  evaluation succeeds). \<^verbatim>\<open>evaluate\<close> raises the assertion error of \<^verbatim>\<open>pawsx\<close> and
  returns nothing for \<^verbatim>\<open>xnli\<close>.
\<close>

theorem count_mismatch_stops_all_tasks:
  "evaluate two_tasks (two_task_files three_lines) ''predictions'' ''labels''
     = Inl (AssertionError (mismatch_message ''predictions/pawsx/test-de.tsv''
                              ''labels/pawsx/test-de.tsv'' ''pawsx''))
   \<and> evaluate_task two_tasks (two_task_files three_lines) ''predictions'' ''labels''
       ''xnli'' [''en''] = Inr xnli_accuracy_score"
  by (simp add: engine_defs two_tasks_def two_task_files_def two_lines_def three_lines_def
      xnli_accuracy_score_def)

text \<open>
  C3, amended. Let a task outside the four names \<^verbatim>\<open>bucc2018\<close>, \<^verbatim>\<open>mlqa\<close>,
  \<^verbatim>\<open>tydiqa\<close>, \<^verbatim>\<open>xquad\<close> be eligible, and let the prediction and label files of one
  of its declared languages parse to different numbers of examples. Then
  \<^verbatim>\<open>evaluate_one_task\<close> raises an assertion error whose message names the two files and
  the task, and \<^verbatim>\<open>evaluate\<close> ends with an exception: it returns no scores, for that
  task or for any other.
\<close>

theorem count_mismatch_raises:
  assumes dirs: "subdirs d pf = Some ps" "subdirs d lf = Some ls"
    and elig: "task \<in> set ps" "task \<in> set ls"
    and decl: "(task, langs) \<in> set (TASK2LANGS reg)" "lg \<in> set langs"
    and non_span: "task \<notin> set [''bucc2018'', ''mlqa'', ''tydiqa'', ''xquad'']"
    and rd: "map_of (READER_FUNCTION reg) task = Some rd"
    and counts: "\<And>qa. map_of (GROUP2TASK reg) ''qa'' = Some qa \<Longrightarrow>
           \<exists>predictions labels.
             rd d (test_file pf task lg (if task \<in> set qa then ''json'' else ''tsv''))
               = Inr predictions
             \<and> rd d (test_file lf task lg (if task \<in> set qa then ''json'' else ''tsv''))
               = Inr labels
             \<and> length predictions \<noteq> length labels"
  shows "isl (evaluate reg d pf lf)
     \<and> (\<forall>p l lang predictions labels.
           rd d p = Inr predictions \<and> rd d l = Inr labels
             \<and> length predictions \<noteq> length labels \<longrightarrow>
           evaluate_one_task reg d p l task lang
             = Inl (AssertionError (mismatch_message p l task)))"
proof -
  have one: "evaluate_one_task reg d p l task lang
               = Inl (AssertionError (mismatch_message p l task))"
    if "rd d p = Inr predictions" and "rd d l = Inr labels"
      and "length predictions \<noteq> length labels" for p l lang predictions labels
    using that rd non_span by (simp add: evaluate_one_task_def getitem_def)
  have "isl (evaluate_one_task reg d
                  (test_file pf task lg (if task \<in> set qa then ''json'' else ''tsv''))
                  (test_file lf task lg (if task \<in> set qa then ''json'' else ''tsv''))
                  task (Some lg))"
    if "map_of (GROUP2TASK reg) ''qa'' = Some qa" for qa
    using counts [OF that] one by (metis sum.disc(1))
  with decl(2) have "isl (evaluate_task reg d pf lf task langs)"
    by (rule evaluate_task_raises)
  with dirs decl(1) elig have "isl (evaluate reg d pf lf)"
    by (rule evaluate_raises)
  with one show ?thesis by blast
qed

theorem count_mismatch_raises_witness:
  "isl (evaluate two_tasks (two_task_files three_lines) ''predictions'' ''labels'')
   \<and> evaluate_one_task two_tasks (two_task_files three_lines)
       ''predictions/pawsx/test-de.tsv'' ''labels/pawsx/test-de.tsv'' ''pawsx'' (Some ''de'')
     = Inl (AssertionError
         ''Number of examples in predictions/pawsx/test-de.tsv and labels/pawsx/test-de.tsv not matched in pawsx task'')"
proof -
  let ?d = "two_task_files three_lines"
  have rp: "read_label ?d ''predictions/pawsx/test-de.tsv'' = Inr [Label ''1'', Label ''0'']"
    by (simp add: read_label_def open_read_def two_task_files_def two_lines_def strip_def
        isspace_def)
  have rl: "read_label ?d ''labels/pawsx/test-de.tsv''
              = Inr [Label ''1'', Label ''0'', Label ''1'']"
    by (simp add: read_label_def open_read_def two_task_files_def three_lines_def strip_def
        isspace_def)
  have "isl (evaluate two_tasks ?d ''predictions'' ''labels'')
     \<and> (\<forall>p l lang predictions labels.
           read_label ?d p = Inr predictions \<and> read_label ?d l = Inr labels
             \<and> length predictions \<noteq> length labels \<longrightarrow>
           evaluate_one_task two_tasks ?d p l ''pawsx'' lang
             = Inl (AssertionError (mismatch_message p l ''pawsx'')))"
  proof (rule count_mismatch_raises [where ps = "[''pawsx'', ''xnli'']"
        and ls = "[''xnli'', ''pawsx'']" and langs = "[''de'', ''en'']" and lg = "''de''"])
    fix qa assume "map_of (GROUP2TASK two_tasks) ''qa'' = Some qa"
    then have "''pawsx'' \<notin> set qa" by (auto simp: two_tasks_def)
    then show "\<exists>predictions labels.
             read_label ?d (test_file ''predictions'' ''pawsx'' ''de''
                   (if ''pawsx'' \<in> set qa then ''json'' else ''tsv'')) = Inr predictions
             \<and> read_label ?d (test_file ''labels'' ''pawsx'' ''de''
                   (if ''pawsx'' \<in> set qa then ''json'' else ''tsv'')) = Inr labels
             \<and> length predictions \<noteq> length labels"
      using rp rl by (simp add: test_file_def os_path_join_def join2_def)
  qed (simp_all add: two_tasks_def two_task_files_def)
  with rp rl show ?thesis
    by (simp add: mismatch_message_def)
qed

section \<open>The overall scores\<close>













lemma empty_report:
  "evaluate (tables (fixed_seqeval 1 1 1)) empty_folders ''predictions'' ''labels''
     = Inr ([], [])"
  by (simp add: engine_defs tables_def empty_folders_def)

section \<open>The scores of one task\<close>

lemma set_update_subset: "set (AList.update k v al) \<subseteq> insert (k, v) (set al)"
  by (induction al) auto

lemma store_metrics_well_formed:
  "well_formed sc \<Longrightarrow> well_formed (store_metrics lg s sc)"
proof (induction s arbitrary: sc)
  case Nil
  then show ?case by simp
next
  case (Cons row s)
  obtain metric v where row: "row = (metric, v)" by (cases row)
  let ?old = "case map_of sc metric of None \<Rightarrow> [] | Some by_lang \<Rightarrow> by_lang"
  have old: "distinct (map fst ?old)"
    using Cons.prems
    by (auto simp: well_formed_def list_all_iff dest!: map_of_SomeD split: option.splits)
  have "well_formed (AList.update metric (AList.update lg v ?old) sc)"
    unfolding well_formed_def list_all_iff
  proof (intro conjI ballI)
    show "distinct (map fst (AList.update metric (AList.update lg v ?old) sc))"
      using Cons.prems by (simp add: well_formed_def distinct_update)
    fix x assume "x \<in> set (AList.update metric (AList.update lg v ?old) sc)"
    then have "x = (metric, AList.update lg v ?old) \<or> x \<in> set sc"
      using set_update_subset by fastforce
    then show "case x of (m, by_lang) \<Rightarrow> by_lang \<noteq> [] \<and> distinct (map fst by_lang)"
      using Cons.prems old
      by (auto simp: well_formed_def list_all_iff distinct_update)
  qed
  from Cons.IH [OF this] row show ?case by simp
qed

lemma collect_scores_well_formed:
  "collect_scores reg d pf lf task sfx langs sc = Inr by_metric \<Longrightarrow> well_formed sc \<Longrightarrow>
   well_formed by_metric"
  by (induction langs arbitrary: sc) (auto simp: store_metrics_well_formed split: sum.splits)

lemma average_scores_distinct:
  "average_scores by_metric avg0 = Inr avg \<Longrightarrow> distinct (map fst avg0) \<Longrightarrow>
   distinct (map fst avg)"
  by (induction by_metric arbitrary: avg0) (auto simp: distinct_update split: if_splits)

lemma average_scores_other_keys:
  "average_scores by_metric avg0 = Inr avg \<Longrightarrow>
   k \<notin> (\<lambda>m. ''avg_'' @ m) ` set (map fst by_metric) \<Longrightarrow> map_of avg k = map_of avg0 k"
proof (induction by_metric arbitrary: avg0)
  case Nil
  then show ?case by simp
next
  case (Cons row by_metric)
  obtain m0 bl0 where row: "row = (m0, bl0)" by (cases row)
  let ?avg1 = "AList.update (''avg_'' @ m0) (sum_list (map snd bl0) / real (length bl0)) avg0"
  from Cons.prems(1) row have rest: "average_scores by_metric ?avg1 = Inr avg"
    by (simp split: if_splits)
  from Cons.prems(2) row have k: "k \<notin> (\<lambda>m. ''avg_'' @ m) ` set (map fst by_metric)"
    and k0: "k \<noteq> ''avg_'' @ m0" by auto
  from Cons.IH [OF rest k] k0 show ?case
    by (simp add: update_conv')
qed

lemma average_scores_entries:
  "average_scores by_metric avg0 = Inr avg \<Longrightarrow> distinct (map fst by_metric) \<Longrightarrow>
   (m, by_lang) \<in> set by_metric \<Longrightarrow>
   map_of avg (''avg_'' @ m) = Some (sum_list (map snd by_lang) / real (length by_lang))"
proof (induction by_metric arbitrary: avg0)
  case Nil
  then show ?case by simp
next
  case (Cons row by_metric)
  obtain m0 bl0 where row: "row = (m0, bl0)" by (cases row)
  let ?avg1 = "AList.update (''avg_'' @ m0) (sum_list (map snd bl0) / real (length bl0)) avg0"
  from Cons.prems(1) row have rest: "average_scores by_metric ?avg1 = Inr avg"
    by (simp split: if_splits)
  from Cons.prems(2) row have dist: "distinct (map fst by_metric)"
    and new: "m0 \<notin> set (map fst by_metric)"
    by auto
  show ?case
  proof (cases "(m, by_lang) = (m0, bl0)")
    case True
    from new have "''avg_'' @ m0 \<notin> (\<lambda>m. ''avg_'' @ m) ` set (map fst by_metric)" by auto
    from average_scores_other_keys [OF rest this] True show ?thesis
      by (simp add: update_conv')
  next
    case False
    with Cons.prems(3) row have "(m, by_lang) \<in> set by_metric" by auto
    from Cons.IH [OF rest dist this] show ?thesis .
  qed
qed

lemma dict_update_entries:
  "distinct (map fst avg) \<Longrightarrow>
   map_of (dict_update sc avg) k =
     (case map_of avg k of Some v \<Rightarrow> Some (Num v) | None \<Rightarrow> map_of sc k)"
proof (induction avg arbitrary: sc)
  case Nil
  show ?case by simp
next
  case (Cons row avg)
  obtain k0 v0 where row: "row = (k0, v0)" by (cases row)
  from Cons.prems row have dist: "distinct (map fst avg)" and "map_of avg k0 = None"
    by (auto simp: map_of_eq_None_iff)
  with Cons.IH [OF dist, of "AList.update k0 (Num v0) sc"] row show ?case
    by (auto simp: update_conv' split: option.splits)
qed

lemma map_of_Dict:
  "map_of (map (\<lambda>(m, by_lang). (m, Dict by_lang)) by_metric) k = map_option Dict (map_of by_metric k)"
  by (induction by_metric) auto

lemma summary_metric_other_keys:
  "summary_metric reg task sc0 = Inr sc \<Longrightarrow> k \<noteq> ''avg_metric'' \<Longrightarrow> map_of sc k = map_of sc0 k"
  by (auto simp: summary_metric_def update_conv' split: sum.splits if_splits pyval.splits option.splits)

lemma evaluate_task_Inr:
  assumes "evaluate_task reg d pf lf task langs = Inr sc"
  obtains qa by_metric avg where "map_of (GROUP2TASK reg) ''qa'' = Some qa"
    and "collect_scores reg d pf lf task (if task \<in> set qa then ''json'' else ''tsv'') langs []
           = Inr by_metric"
    and "average_scores by_metric [] = Inr avg"
    and "summary_metric reg task
           (dict_update (map (\<lambda>(m, by_lang). (m, Dict by_lang)) by_metric) avg) = Inr sc"
proof -
  from assms obtain qa where qa: "map_of (GROUP2TASK reg) ''qa'' = Some qa"
    by (cases "map_of (GROUP2TASK reg) ''qa''") (simp_all add: evaluate_task_def getitem_def)
  let ?c = "collect_scores reg d pf lf task (if task \<in> set qa then ''json'' else ''tsv'') langs []"
  from assms qa obtain by_metric where c: "?c = Inr by_metric"
    by (cases ?c) (simp_all add: evaluate_task_def getitem_def)
  from assms qa c obtain avg where a: "average_scores by_metric [] = Inr avg"
    by (cases "average_scores by_metric []") (simp_all add: evaluate_task_def getitem_def)
  from assms qa c a have "summary_metric reg task
           (dict_update (map (\<lambda>(m, by_lang). (m, Dict by_lang)) by_metric) avg) = Inr sc"
    by (simp add: evaluate_task_def getitem_def)
  with qa c a that show thesis by blast
qed



lemma evaluate_task_average:
  assumes ev: "evaluate_task reg d pf lf task langs = Inr sc"
    and m: "map_of sc m = Some (Dict by_lang)"
    and names: "m \<noteq> ''metric''" "m \<noteq> ''avg_metric''"
  shows "by_lang \<noteq> [] \<and> distinct (map fst by_lang)
         \<and> map_of sc (''avg_'' @ m) = Some (Num (sum_list (map snd by_lang) / real (length by_lang)))"
proof -
  from ev obtain qa by_metric avg where
    c: "collect_scores reg d pf lf task (if task \<in> set qa then ''json'' else ''tsv'') langs []
           = Inr by_metric"
    and a: "average_scores by_metric [] = Inr avg"
    and s: "summary_metric reg task
           (dict_update (map (\<lambda>(m, by_lang). (m, Dict by_lang)) by_metric) avg) = Inr sc"
    by (rule evaluate_task_Inr)
  let ?sc0 = "dict_update (map (\<lambda>(m, by_lang). (m, Dict by_lang)) by_metric) avg"
  have wf: "well_formed by_metric"
    using collect_scores_well_formed [OF c] by (simp add: well_formed_def)
  then have dist: "distinct (map fst by_metric)" by (simp add: well_formed_def)
  have davg: "distinct (map fst avg)"
    using average_scores_distinct [OF a] by simp
  have sc0: "map_of ?sc0 k =
     (case map_of avg k of Some v \<Rightarrow> Some (Num v) | None \<Rightarrow> map_option Dict (map_of by_metric k))" for k
    by (simp add: dict_update_entries [OF davg] map_of_Dict split: option.splits)
  from m names(2) have "map_of ?sc0 m = Some (Dict by_lang)"
    using summary_metric_other_keys [OF s] by simp
  then have "map_of by_metric m = Some by_lang"
    by (auto simp: sc0 split: option.splits)
  then have mem: "(m, by_lang) \<in> set by_metric" by (rule map_of_SomeD)
  with wf have good: "by_lang \<noteq> []" "distinct (map fst by_lang)"
    by (auto simp: well_formed_def list_all_iff)
  from average_scores_entries [OF a dist mem]
  have "map_of ?sc0 (''avg_'' @ m) = Some (Num (sum_list (map snd by_lang) / real (length by_lang)))"
    by (simp add: sc0)
  moreover from names(1) have "''avg_'' @ m \<noteq> ''avg_metric''" by simp
  ultimately have "map_of sc (''avg_'' @ m) = Some (Num (sum_list (map snd by_lang) / real (length by_lang)))"
    using summary_metric_other_keys [OF s] by simp
  with good show ?thesis by simp
qed

text \<open>
  The per-language dictionaries hold exactly what \<^verbatim>\<open>evaluate_one_task\<close> returned:
  every entry is a score computed for a declared language, and every declared language
  whose result has the metric is entered.
\<close>

lemma by_lang_of_update:
  "by_lang_of (AList.update k bl sc) m = (if m = k then bl else by_lang_of sc m)"
  by (simp add: by_lang_of_def update_conv')

lemma store_metrics_sound:
  "(lg', v) \<in> set (by_lang_of (store_metrics lg s sc) m) \<Longrightarrow>
   (lg', v) \<in> set (by_lang_of sc m) \<or> (lg' = lg \<and> (m, v) \<in> set s)"
proof (induction s arbitrary: sc)
  case Nil
  then show ?case by simp
next
  case (Cons row s)
  obtain metric v0 where row: "row = (metric, v0)" by (cases row)
  let ?sc1 = "AList.update metric (AList.update lg v0 (by_lang_of sc metric)) sc"
  from Cons.prems row have "(lg', v) \<in> set (by_lang_of (store_metrics lg s ?sc1) m)"
    by (simp add: by_lang_of_def)
  from Cons.IH [OF this]
  have "(lg', v) \<in> set (by_lang_of ?sc1 m) \<or> (lg' = lg \<and> (m, v) \<in> set s)" .
  then show ?case
    using row set_update_subset [of lg v0 "by_lang_of sc metric"]
    by (auto simp: by_lang_of_update split: if_splits)
qed

lemma store_metrics_keeps:
  "lg' \<in> fst ` set (by_lang_of sc m) \<Longrightarrow> lg' \<in> fst ` set (by_lang_of (store_metrics lg s sc) m)"
proof (induction s arbitrary: sc)
  case Nil
  then show ?case by simp
next
  case (Cons row s)
  obtain metric v0 where row: "row = (metric, v0)" by (cases row)
  let ?sc1 = "AList.update metric (AList.update lg v0 (by_lang_of sc metric)) sc"
  from Cons.prems have "lg' \<in> fst ` set (by_lang_of ?sc1 m)"
    by (auto simp: by_lang_of_update dom_update)
  from Cons.IH [OF this] row show ?case
    by (simp add: by_lang_of_def)
qed

lemma store_metrics_complete:
  "m \<in> fst ` set s \<Longrightarrow> lg \<in> fst ` set (by_lang_of (store_metrics lg s sc) m)"
proof (induction s arbitrary: sc)
  case Nil
  then show ?case by simp
next
  case (Cons row s)
  obtain metric v0 where row: "row = (metric, v0)" by (cases row)
  let ?sc1 = "AList.update metric (AList.update lg v0 (by_lang_of sc metric)) sc"
  show ?case
  proof (cases "m = metric")
    case True
    then have "lg \<in> fst ` set (by_lang_of ?sc1 m)"
      by (simp add: by_lang_of_update dom_update)
    from store_metrics_keeps [OF this] row show ?thesis
      by (simp add: by_lang_of_def)
  next
    case False
    with Cons.prems row have "m \<in> fst ` set s" by auto
    from Cons.IH [OF this] row show ?thesis
      by (simp add: by_lang_of_def)
  qed
qed

lemma collect_scores_sound:
  assumes "collect_scores reg d pf lf task sfx langs sc = Inr by_metric"
    and "(lg, v) \<in> set (by_lang_of by_metric m)"
  shows "(lg, v) \<in> set (by_lang_of sc m)
     \<or> (lg \<in> set langs
        \<and> (\<exists>s. evaluate_one_task reg d (test_file pf task lg sfx) (test_file lf task lg sfx)
                  task (Some lg) = Inr s \<and> (m, v) \<in> set s))"
  using assms
proof (induction langs arbitrary: sc)
  case Nil
  then show ?case by simp
next
  case (Cons l0 langs)
  from Cons.prems(1) obtain s0 where
    r0: "evaluate_one_task reg d (test_file pf task l0 sfx) (test_file lf task l0 sfx)
           task (Some l0) = Inr s0"
    and rest: "collect_scores reg d pf lf task sfx langs (store_metrics l0 s0 sc) = Inr by_metric"
    by (auto split: sum.splits)
  from Cons.IH [OF rest Cons.prems(2)] store_metrics_sound [of lg v l0 s0 sc m] r0
  show ?case by auto
qed

lemma collect_scores_keeps:
  assumes "collect_scores reg d pf lf task sfx langs sc = Inr by_metric"
    and "lg \<in> fst ` set (by_lang_of sc m)"
  shows "lg \<in> fst ` set (by_lang_of by_metric m)"
  using assms
proof (induction langs arbitrary: sc)
  case Nil
  then show ?case by simp
next
  case (Cons l0 langs)
  from Cons.prems(1) obtain s0 where
    rest: "collect_scores reg d pf lf task sfx langs (store_metrics l0 s0 sc) = Inr by_metric"
    by (auto split: sum.splits)
  from Cons.IH [OF rest store_metrics_keeps [OF Cons.prems(2)]] show ?case .
qed

lemma collect_scores_complete:
  assumes "collect_scores reg d pf lf task sfx langs sc = Inr by_metric"
    and "lg \<in> set langs"
    and "evaluate_one_task reg d (test_file pf task lg sfx) (test_file lf task lg sfx)
           task (Some lg) = Inr s"
    and "m \<in> fst ` set s"
  shows "lg \<in> fst ` set (by_lang_of by_metric m)"
  using assms
proof (induction langs arbitrary: sc)
  case Nil
  then show ?case by simp
next
  case (Cons l0 langs)
  from Cons.prems(1) obtain s0 where
    r0: "evaluate_one_task reg d (test_file pf task l0 sfx) (test_file lf task l0 sfx)
           task (Some l0) = Inr s0"
    and rest: "collect_scores reg d pf lf task sfx langs (store_metrics l0 s0 sc) = Inr by_metric"
    by (auto split: sum.splits)
  show ?case
  proof (cases "lg = l0")
    case True
    with r0 Cons.prems(3,4) have "lg \<in> fst ` set (by_lang_of (store_metrics l0 s0 sc) m)"
      using store_metrics_complete [of m s0 l0 sc] by simp
    from collect_scores_keeps [OF rest this] show ?thesis .
  next
    case False
    with Cons.prems(2) have "lg \<in> set langs" by simp
    from Cons.IH [OF rest this Cons.prems(3,4)] show ?thesis .
  qed
qed

lemma evaluate_task_languages:
  assumes ev: "evaluate_task reg d pf lf task langs = Inr sc"
    and m: "map_of sc m = Some (Dict by_lang)"
    and name: "m \<noteq> ''avg_metric''"
  shows "\<exists>sfx. (\<forall>(lg, v)\<in>set by_lang.
                  lg \<in> set langs
                  \<and> (\<exists>s. evaluate_one_task reg d (test_file pf task lg sfx)
                             (test_file lf task lg sfx) task (Some lg) = Inr s
                           \<and> (m, v) \<in> set s))
             \<and> (\<forall>lg\<in>set langs. \<forall>s.
                  evaluate_one_task reg d (test_file pf task lg sfx)
                    (test_file lf task lg sfx) task (Some lg) = Inr s
                  \<and> m \<in> fst ` set s \<longrightarrow> lg \<in> fst ` set by_lang)"
proof -
  from ev obtain qa by_metric avg where
    c: "collect_scores reg d pf lf task (if task \<in> set qa then ''json'' else ''tsv'') langs []
           = Inr by_metric"
    and a: "average_scores by_metric [] = Inr avg"
    and s: "summary_metric reg task
           (dict_update (map (\<lambda>(m, by_lang). (m, Dict by_lang)) by_metric) avg) = Inr sc"
    by (rule evaluate_task_Inr)
  define sfx where "sfx = (if task \<in> set qa then ''json'' else ''tsv'')"
  from c have c': "collect_scores reg d pf lf task sfx langs [] = Inr by_metric"
    by (simp only: sfx_def)
  let ?sc0 = "dict_update (map (\<lambda>(m, by_lang). (m, Dict by_lang)) by_metric) avg"
  have davg: "distinct (map fst avg)"
    using average_scores_distinct [OF a] by simp
  have sc0: "map_of ?sc0 k =
     (case map_of avg k of Some v \<Rightarrow> Some (Num v)
      | None \<Rightarrow> map_option Dict (map_of by_metric k))" for k
    by (simp add: dict_update_entries [OF davg] map_of_Dict split: option.splits)
  from m name have "map_of ?sc0 m = Some (Dict by_lang)"
    using summary_metric_other_keys [OF s] by simp
  then have "map_of by_metric m = Some by_lang"
    by (auto simp: sc0 split: option.splits)
  then have bl: "by_lang_of by_metric m = by_lang"
    by (simp add: by_lang_of_def)
  have empty: "by_lang_of [] m = []"
    by (simp add: by_lang_of_def)
  have sound: "lg \<in> set langs
        \<and> (\<exists>s. evaluate_one_task reg d (test_file pf task lg sfx) (test_file lf task lg sfx)
                  task (Some lg) = Inr s \<and> (m, v) \<in> set s)"
    if "(lg, v) \<in> set by_lang" for lg v
  proof -
    from that bl have "(lg, v) \<in> set (by_lang_of by_metric m)" by simp
    from collect_scores_sound [OF c' this] empty show ?thesis by simp
  qed
  have complete: "lg \<in> fst ` set by_lang"
    if "lg \<in> set langs"
      and "evaluate_one_task reg d (test_file pf task lg sfx) (test_file lf task lg sfx)
             task (Some lg) = Inr s"
      and "m \<in> fst ` set s" for lg s
    using collect_scores_complete [OF c' that] bl by simp
  from sound complete show ?thesis
    by (intro exI [of _ sfx]) blast
qed




section \<open>A scope whose tasks were all evaluated\<close>











section \<open>The averages of one task\<close>





section \<open>The summary metric of one task\<close>










end
